theory Spec2Isabelle
  imports Main
begin

section \<open>Documents and collections\<close>

text \<open>
  A document identifier (\<open>Types.ObjectId\<close>) is a natural number, and \<open>toString\<close> of an
  identifier is identified with the identifier, so that the routes' comparisons of
  \<open>x.toString()\<close> with \<open>y.toString()\<close> are comparisons of identifiers. A \<open>Date\<close> is its
  millisecond count. A required string path of a schema rejects the empty string, so an
  absent string-valued field and an empty one are both the empty string here.

  The field names of the sources are kept; a short prefix tells the records apart where
  two documents have a field of the same name. A document stores a reference to a user
  as the user's identifier.
\<close>

type_synonym objectid = nat
type_synonym date = int

record image =
  url :: string
  publicId :: string
  thumbnailUrl :: string

text \<open>
  Modelled from the spec: the User model (\<open>models/User\<close>) is not among the sources. The
  record has the fields that the routes and the authentication middleware read and write:
  employee identifier, secret, first and last name, role, permission references and the
  two timestamps.
\<close>

record user =
  user_id :: objectid
  employeeNumber :: string
  password :: string
  firstName :: string
  lastName :: string
  role :: string
  permissions :: "objectid list"
  createdAt :: date
  updatedAt :: date

record permission =
  perm_id :: objectid
  perm_name :: string
  perm_description :: string

record lost_item =
  li_id :: objectid
  li_itemName :: string
  li_description :: string
  li_location :: string
  li_category :: string
  li_status :: string
  li_images :: "image list"
  li_foundBy :: objectid
  li_supervisor :: "objectid option"
  li_deliveredBy :: "objectid option"
  li_deliveredAt :: "date option"
  li_flightNumber :: string
  li_dateFound :: date

record customer_info =
  ci_name :: string
  ci_email :: string
  ci_phone :: string
  ci_identification :: "string option"
  ci_signature :: "string option"
  ci_deliveryDate :: "date option"

record delivered_item =
  di_id :: objectid
  di_itemName :: string
  di_description :: string
  di_location :: string
  di_category :: string
  di_images :: "image list"
  di_foundBy :: objectid
  di_deliveredBy :: "objectid option"
  di_flightNumber :: string
  di_dateFound :: date
  di_dateDelivered :: date
  di_archived :: bool
  di_customerInfo :: customer_info
  di_deliveryNotes :: "string option"
  di_deliveryPhotos :: "image list"

text \<open>
  The four collections, each a list of documents in the store's order, and the counter
  from which \<open>new ObjectId()\<close> draws: identifiers generated in one process are pairwise
  different, which the counter reproduces.
\<close>

record state =
  User_coll :: "user list"
  Permission_coll :: "permission list"
  LostItem_coll :: "lost_item list"
  DeliveredItem_coll :: "delivered_item list"
  nextObjectId :: nat

text \<open>
  A document constructed with \<open>new Model(...)\<close> (or a bare \<open>new ObjectId()\<close>) takes the
  identifier \<open>nextObjectId\<close>, after which the counter has moved on, whether or not the
  document is saved.
\<close>

definition usedObjectId :: "state \<Rightarrow> state" where
  "usedObjectId st = st\<lparr>nextObjectId := Suc (nextObjectId st)\<rparr>"

definition findById :: "('a \<Rightarrow> objectid) \<Rightarrow> 'a list \<Rightarrow> objectid \<Rightarrow> 'a option" where
  "findById key xs i = find (\<lambda>d. key d = i) xs"

fun deleteOne :: "('a \<Rightarrow> objectid) \<Rightarrow> objectid \<Rightarrow> 'a list \<Rightarrow> 'a list" where
  "deleteOne key i [] = []"
| "deleteOne key i (d # ds) = (if key d = i then ds else d # deleteOne key i ds)"

fun updateOne :: "('a \<Rightarrow> objectid) \<Rightarrow> objectid \<Rightarrow> ('a \<Rightarrow> 'a) \<Rightarrow> 'a list \<Rightarrow> 'a list" where
  "updateOne key i f [] = []"
| "updateOne key i f (d # ds) = (if key d = i then f d # ds else d # updateOne key i f ds)"

section \<open>Authentication gate\<close>

text \<open>
  \<open>String.prototype.replace\<close> with a string pattern replaces the first occurrence.
\<close>

fun replaceFirst :: "string \<Rightarrow> string \<Rightarrow> string \<Rightarrow> string" where
  "replaceFirst pat rep [] = (if pat = [] then rep else [])"
| "replaceFirst pat rep (c # cs) =
     (if take (length pat) (c # cs) = pat then rep @ drop (length pat) (c # cs)
      else c # replaceFirst pat rep cs)"

text \<open>
  \<open>jwt.verify(token, secret)\<close> belongs to the signing library and is a parameter of the
  gate. It throws \<open>TokenExpiredError\<close> for an expired token and \<open>JsonWebTokenError\<close> for
  every token that is not validly signed with the secret; otherwise it returns the
  payload, of which the gate reads the field \<open>id\<close> only. The field is optional here
  because the second registration route signs a payload that carries \<open>_id\<close> and no
  \<open>id\<close>; \<open>User.findById(undefined)\<close> finds nothing. An \<open>id\<close> that cannot be read as
  an identifier makes the lookup throw, which the gate answers with 401 like a failed
  verification; the payloads of the model carry identifiers only.
\<close>

datatype jwt_result = JsonWebTokenError | TokenExpiredError | Decoded "objectid option"

record req_user =
  ru_id :: objectid
  ru_employeeNumber :: string
  ru_firstName :: string
  ru_lastName :: string
  ru_role :: string
  ru_permissions :: "objectid list"
  ru_createdAt :: date
  ru_updatedAt :: date

datatype auth_result = Rejected nat string | Next req_user

definition bearerToken :: "string option \<Rightarrow> string option" where
  "bearerToken header = map_option (replaceFirst ''Bearer '' []) header"

definition identity :: "user \<Rightarrow> req_user" where
  "identity u =
     \<lparr>ru_id = user_id u, ru_employeeNumber = employeeNumber u, ru_firstName = firstName u,
      ru_lastName = lastName u, ru_role = role u, ru_permissions = permissions u,
      ru_createdAt = createdAt u, ru_updatedAt = updatedAt u\<rparr>"

definition auth :: "(string \<Rightarrow> jwt_result) \<Rightarrow> user list \<Rightarrow> string option \<Rightarrow> auth_result" where
  "auth verify us header =
     (case bearerToken header of
        None \<Rightarrow> Rejected 401 ''NO_TOKEN''
      | Some token \<Rightarrow>
          if token = [] then Rejected 401 ''NO_TOKEN''
          else
            (case verify token of
               JsonWebTokenError \<Rightarrow> Rejected 401 ''INVALID_TOKEN''
             | TokenExpiredError \<Rightarrow> Rejected 401 ''INVALID_TOKEN''
             | Decoded i \<Rightarrow>
                 (case Option.bind i (findById user_id us) of
                    None \<Rightarrow> Rejected 401 ''USER_NOT_FOUND''
                  | Some u \<Rightarrow> Next (identity u))))"

text \<open>\<open>checkRole(allowedRoles)\<close>: the role of the attached identity must be listed.\<close>

definition checkRole :: "string list \<Rightarrow> req_user \<Rightarrow> bool" where
  "checkRole allowedRoles u = (ru_role u \<in> set allowedRoles)"

section \<open>Status normalisation\<close>

text \<open>
  Both item routers (lost items and delivered items) carry the same helper:
  \<^verbatim>\<open>
  const normalizeStatus = (status: string): string => {
    const statusMap = { 'on-hand': 'onHand', 'in-process': 'inProcess', 'delivered': 'delivered' };
    return statusMap[status.toLowerCase()] || status;
  };
  \<close>
  Strings are byte lists here, so \<open>toLowerCase\<close> is modelled on the ASCII letters and
  leaves every other byte alone. The table is looked up by its own three keys; properties
  that a JavaScript object inherits from its prototype are not part of the table.
\<close>

definition toLowerCase_char :: "char \<Rightarrow> char" where
  "toLowerCase_char c =
     (let n = (of_char c :: nat) in if 65 \<le> n \<and> n \<le> 90 then char_of (n + 32) else c)"

definition toLowerCase :: "string \<Rightarrow> string" where
  "toLowerCase s = map toLowerCase_char s"

definition statusMap :: "(string \<times> string) list" where
  "statusMap = [(''on-hand'', ''onHand''), (''in-process'', ''inProcess''), (''delivered'', ''delivered'')]"

definition normalizeStatus :: "string \<Rightarrow> string" where
  "normalizeStatus status =
     (case map_of statusMap (toLowerCase status) of
        None \<Rightarrow> status
      | Some v \<Rightarrow> if v = [] then status else v)"

section \<open>Registration\<close>

text \<open>
  The registration routes destructure \<open>employeeNumber\<close>, \<open>password\<close>, \<open>firstName\<close> and
  \<open>lastName\<close> from the request body and read nothing else of it. The body may carry
  more, in particular a \<open>role\<close> field. The \<open>express-validator\<close> chains in front of the
  handlers only record their findings; the handlers never consult \<open>validationResult\<close>.
\<close>

record register_body =
  rb_employeeNumber :: string
  rb_password :: string
  rb_firstName :: string
  rb_lastName :: string
  rb_role :: "string option"

text \<open>
  Modelled from the spec: what \<open>models/User\<close> (not among the sources) does when a user is
  saved. \<open>um_validate\<close> is its schema validation, whose failure makes \<open>save\<close> throw, and
  \<open>um_hash\<close> the hashing of the secret before it is stored.
\<close>

record user_model =
  um_validate :: "user \<Rightarrow> bool"
  um_hash :: "string \<Rightarrow> string"

record token_payload =
  tp_id :: "objectid option"
  tp_underscore_id :: "objectid option"
  tp_employeeNumber :: string
  tp_role :: string

record user_view =
  uv_id :: objectid
  uv_employeeNumber :: string
  uv_firstName :: string
  uv_lastName :: string
  uv_role :: string
  uv_permissions :: "objectid list option"

datatype register_reply = RegisterMessage string | Registered token_payload user_view

definition defaultPermissionNames :: "string list" where
  "defaultPermissionNames = [''view_items'', ''view_dashboard'', ''edit_items'', ''view_reports'']"

definition saveUser :: "user_model \<Rightarrow> user \<Rightarrow> state \<Rightarrow> state option" where
  "saveUser um u st =
     (if um_validate um u
      then Some (st\<lparr>User_coll := User_coll st @ [u\<lparr>password := um_hash um (password u)\<rparr>]\<rparr>)
      else None)"

text \<open>\<open>POST /register\<close> of the first authentication router.\<close>

definition register :: "user_model \<Rightarrow> state \<Rightarrow> register_body \<Rightarrow> date \<Rightarrow> (nat \<times> register_reply) \<times> state" where
  "register um st b now =
     (case find (\<lambda>u. employeeNumber u = rb_employeeNumber b) (User_coll st) of
        Some existingUser \<Rightarrow> ((400, RegisterMessage ''Employee number already exists''), st)
      | None \<Rightarrow>
          (let defaultPermissions =
                 filter (\<lambda>p. perm_name p \<in> set defaultPermissionNames) (Permission_coll st)
           in if length defaultPermissions = 0
              then ((500, RegisterMessage ''Error setting up user permissions''), st)
              else
                (let u = \<lparr>user_id = nextObjectId st,
                          employeeNumber = rb_employeeNumber b,
                          password = rb_password b,
                          firstName = rb_firstName b,
                          lastName = rb_lastName b,
                          role = ''employee'',
                          permissions = map perm_id defaultPermissions,
                          createdAt = now, updatedAt = now\<rparr>
                 in case saveUser um u (usedObjectId st) of
                      None \<Rightarrow> ((500, RegisterMessage ''Error registering user''), usedObjectId st)
                    | Some st' \<Rightarrow>
                        ((201, Registered
                            \<lparr>tp_id = Some (user_id u), tp_underscore_id = None,
                             tp_employeeNumber = employeeNumber u, tp_role = role u\<rparr>
                            \<lparr>uv_id = user_id u, uv_employeeNumber = employeeNumber u,
                             uv_firstName = firstName u, uv_lastName = lastName u,
                             uv_role = role u, uv_permissions = Some (permissions u)\<rparr>), st'))))"

text \<open>
  \<open>POST /register\<close> of the second authentication router: no default permissions, and the
  token payload carries the identifier as \<open>_id\<close>.
\<close>

definition register2 :: "user_model \<Rightarrow> state \<Rightarrow> register_body \<Rightarrow> date \<Rightarrow> (nat \<times> register_reply) \<times> state" where
  "register2 um st b now =
     (case find (\<lambda>u. employeeNumber u = rb_employeeNumber b) (User_coll st) of
        Some existingUser \<Rightarrow> ((400, RegisterMessage ''Employee number already exists''), st)
      | None \<Rightarrow>
          (let u = \<lparr>user_id = nextObjectId st,
                    employeeNumber = rb_employeeNumber b,
                    password = rb_password b,
                    firstName = rb_firstName b,
                    lastName = rb_lastName b,
                    role = ''employee'',
                    permissions = [],
                    createdAt = now, updatedAt = now\<rparr>
           in case saveUser um u (usedObjectId st) of
                None \<Rightarrow> ((500, RegisterMessage ''Error creating user''), usedObjectId st)
              | Some st' \<Rightarrow>
                  ((201, Registered
                      \<lparr>tp_id = None, tp_underscore_id = Some (user_id u),
                       tp_employeeNumber = employeeNumber u, tp_role = role u\<rparr>
                      \<lparr>uv_id = user_id u, uv_employeeNumber = employeeNumber u,
                       uv_firstName = firstName u, uv_lastName = lastName u,
                       uv_role = role u, uv_permissions = None\<rparr>), st')))"

text \<open>
  A token stands for the payload it was signed from: for a token that the server signed
  and that has not expired, \<open>jwt.verify\<close> returns that payload, of which the gate reads
  \<open>id\<close>.
\<close>

definition verifyIssued :: "token_payload \<Rightarrow> string \<Rightarrow> jwt_result" where
  "verifyIssued payload token = Decoded (tp_id payload)"

section \<open>Permissions of a user\<close>

text \<open>
  \<open>PUT /users/:userId/permissions\<close> (the same handler in both authentication routers).
  \<open>Permission.find({ name: { $in: permissions } })\<close> returns the catalog documents whose
  name occurs in the list.
\<close>

datatype permissions_reply = PermissionsMessage string | PermissionsUpdated user "permission list"

definition updateUserPermissions ::
    "state \<Rightarrow> req_user \<Rightarrow> objectid \<Rightarrow> string list \<Rightarrow> (nat \<times> permissions_reply) \<times> state" where
  "updateUserPermissions st ru userId names =
     (case findById user_id (User_coll st) (ru_id ru) of
        None \<Rightarrow> ((403, PermissionsMessage ''Access denied. Admin only.''), st)
      | Some requestingUser \<Rightarrow>
          if role requestingUser \<noteq> ''admin''
          then ((403, PermissionsMessage ''Access denied. Admin only.''), st)
          else
            (let validPermissions = filter (\<lambda>p. perm_name p \<in> set names) (Permission_coll st)
             in if length validPermissions \<noteq> length names
                then ((400, PermissionsMessage ''Invalid permissions provided''), st)
                else
                  (case findById user_id (User_coll st) userId of
                     None \<Rightarrow> ((404, PermissionsMessage ''User not found''), st)
                   | Some target \<Rightarrow>
                       (let upd = (\<lambda>u. u\<lparr>permissions := map perm_id validPermissions\<rparr>)
                        in ((200, PermissionsUpdated (upd target) validPermissions),
                            st\<lparr>User_coll := updateOne user_id userId upd (User_coll st)\<rparr>)))))"

section \<open>Permission catalog\<close>

text \<open>\<open>DELETE /:id\<close> of the permission router.\<close>

record user_summary =
  us_id :: objectid
  us_name :: string
  us_employeeNumber :: string

datatype delete_permission_reply =
    DeleteMessage string
  | NotFoundCode string string
  | InUse string string "user_summary list"

definition summary :: "user \<Rightarrow> user_summary" where
  "summary u =
     \<lparr>us_id = user_id u, us_name = firstName u @ '' '' @ lastName u,
      us_employeeNumber = employeeNumber u\<rparr>"

definition usersWithPermission :: "state \<Rightarrow> objectid \<Rightarrow> user list" where
  "usersWithPermission st pid = filter (\<lambda>u. pid \<in> set (permissions u)) (User_coll st)"

definition deletePermission ::
    "state \<Rightarrow> req_user \<Rightarrow> objectid \<Rightarrow> (nat \<times> delete_permission_reply) \<times> state" where
  "deletePermission st ru pid =
     (case findById user_id (User_coll st) (ru_id ru) of
        None \<Rightarrow> ((403, DeleteMessage ''Only admins can delete permissions''), st)
      | Some adminUser \<Rightarrow>
          if role adminUser = [] \<or> role adminUser \<noteq> ''admin''
          then ((403, DeleteMessage ''Only admins can delete permissions''), st)
          else
            (case findById perm_id (Permission_coll st) pid of
               None \<Rightarrow> ((404, NotFoundCode ''Permission not found'' ''PERMISSION_NOT_FOUND''), st)
             | Some p \<Rightarrow>
                 if length (usersWithPermission st (perm_id p)) > 0
                 then ((400, InUse ''Permission is in use and cannot be deleted'' ''PERMISSION_IN_USE''
                               (map summary (usersWithPermission st (perm_id p)))), st)
                 else ((200, DeleteMessage ''Permission deleted successfully''),
                       st\<lparr>Permission_coll := deleteOne perm_id (perm_id p) (Permission_coll st)\<rparr>)))"

section \<open>References to users\<close>

text \<open>
  A reference path of a document after \<open>populate\<close>: nothing, a string, or the selected
  fields of the user found. \<open>populate\<close> leaves nothing where no user has the stored
  identifier, and never leaves a string.
\<close>

record user_info =
  ui_id :: objectid
  ui_firstName :: string
  ui_lastName :: string
  ui_employeeNumber :: string

datatype user_ref = Null | Str string | Doc user_info

definition populate :: "user list \<Rightarrow> objectid option \<Rightarrow> user_ref" where
  "populate us r =
     (case Option.bind r (findById user_id us) of
        None \<Rightarrow> Null
      | Some u \<Rightarrow> Doc \<lparr>ui_id = user_id u, ui_firstName = firstName u, ui_lastName = lastName u,
                       ui_employeeNumber = employeeNumber u\<rparr>)"

record listed_lost_item =
  ll_item :: lost_item
  ll_foundBy :: user_ref
  ll_supervisor :: user_ref
  ll_deliveredBy :: user_ref

record listed_delivered_item =
  ld_item :: delivered_item
  ld_foundBy :: user_ref
  ld_deliveredBy :: user_ref

definition populateLostItem :: "user list \<Rightarrow> lost_item \<Rightarrow> listed_lost_item" where
  "populateLostItem us item =
     \<lparr>ll_item = item,
      ll_foundBy = populate us (Some (li_foundBy item)),
      ll_supervisor = populate us (li_supervisor item),
      ll_deliveredBy = populate us (li_deliveredBy item)\<rparr>"

definition populateDeliveredItem :: "user list \<Rightarrow> delivered_item \<Rightarrow> listed_delivered_item" where
  "populateDeliveredItem us item =
     \<lparr>ld_item = item,
      ld_foundBy = populate us (Some (di_foundBy item)),
      ld_deliveredBy = populate us (di_deliveredBy item)\<rparr>"

text \<open>
  The schemas of both item models populate their user references before every \<open>find\<close>
  and \<open>findOne\<close> (the hooks \<open>pre('find')\<close> and \<open>pre('findOne')\<close>), so \<open>findById\<close> returns
  the document with its references expanded: \<open>item.foundBy\<close> is then the finder's record,
  or nothing when the finder is no longer stored.
\<close>

definition LostItem_findById :: "state \<Rightarrow> objectid \<Rightarrow> listed_lost_item option" where
  "LostItem_findById st i =
     map_option (populateLostItem (User_coll st)) (findById li_id (LostItem_coll st) i)"

definition DeliveredItem_findById :: "state \<Rightarrow> objectid \<Rightarrow> listed_delivered_item option" where
  "DeliveredItem_findById st i =
     map_option (populateDeliveredItem (User_coll st)) (findById di_id (DeliveredItem_coll st) i)"

text \<open>
  A populated reference that is given to a path of type ObjectId is cast to the
  identifier of the record; nothing stays nothing, which a required path rejects when the
  document is saved.
\<close>

definition castToObjectId :: "user_ref \<Rightarrow> objectid option" where
  "castToObjectId r = (case r of Doc u \<Rightarrow> Some (ui_id u) | _ \<Rightarrow> None)"

text \<open>
  \<open>toString()\<close>: of an identifier its text, of a populated record the text of the whole
  record, which is never the text of an identifier; on nothing it throws a \<open>TypeError\<close>
  (the result \<open>None\<close>).
\<close>

datatype rendered = IdText objectid | DocText user_info | PlainText string

definition toString_ref :: "user_ref \<Rightarrow> rendered option" where
  "toString_ref r =
     (case r of Null \<Rightarrow> None | Str s \<Rightarrow> Some (PlainText s) | Doc u \<Rightarrow> Some (DocText u))"

text \<open>
  The test of the first lost-items router before a write,
  \<^verbatim>\<open>req.user.role !== 'admin' && req.user.role !== 'supervisor' &&
  item.foundBy.toString() !== req.user._id.toString()\<close>,
  on the item that \<open>findById\<close> returned. \<open>&&\<close> evaluates the comparison only for a caller
  who is neither administrator nor supervisor. \<open>None\<close> is the \<open>TypeError\<close>.
\<close>

definition notAuthorized :: "req_user \<Rightarrow> listed_lost_item \<Rightarrow> bool option" where
  "notAuthorized ru item =
     (if ru_role ru \<noteq> ''admin'' \<and> ru_role ru \<noteq> ''supervisor''
      then map_option (\<lambda>t. t \<noteq> IdText (ru_id ru)) (toString_ref (ll_foundBy item))
      else Some False)"

section \<open>Schemas of the item models\<close>

text \<open>
  What \<open>save\<close> validates. The LostItem schema is the one whose status enumeration
  contains \<open>onHand\<close>, the value the routes write on creation. A path of type ObjectId
  or Date that the record always carries needs no check.
\<close>

definition LostItemSchema_status_enum :: "string list" where
  "LostItemSchema_status_enum = [''pending'', ''onHand'', ''delivered'', ''archived'']"

definition LostItemSchema_status_default :: string where
  "LostItemSchema_status_default = ''onHand''"

definition LostItemSchema_validate :: "lost_item \<Rightarrow> bool" where
  "LostItemSchema_validate l \<longleftrightarrow>
     li_itemName l \<noteq> [] \<and> li_description l \<noteq> [] \<and> li_location l \<noteq> [] \<and>
     li_category l \<noteq> [] \<and> li_status l \<in> set LostItemSchema_status_enum \<and>
     li_supervisor l \<noteq> None \<and> li_flightNumber l \<noteq> []"

text \<open>
  The DeliveredItem schema with \<open>deliveredBy\<close>, delivery notes and photographs, and a
  customer's identification and signature: the one the delivery route writes to.
\<close>

definition DeliveredItemSchema_validate :: "delivered_item \<Rightarrow> bool" where
  "DeliveredItemSchema_validate d \<longleftrightarrow>
     di_itemName d \<noteq> [] \<and> di_description d \<noteq> [] \<and> di_location d \<noteq> [] \<and>
     di_category d \<noteq> [] \<and> di_flightNumber d \<noteq> [] \<and>
     ci_name (di_customerInfo d) \<noteq> [] \<and> ci_email (di_customerInfo d) \<noteq> [] \<and>
     ci_phone (di_customerInfo d) \<noteq> [] \<and>
     ci_identification (di_customerInfo d) \<noteq> None \<and> ci_identification (di_customerInfo d) \<noteq> Some [] \<and>
     ci_signature (di_customerInfo d) \<noteq> None \<and> ci_signature (di_customerInfo d) \<noteq> Some []"

text \<open>
  The other DeliveredItem schema of the repository, whose customer information is name,
  email, phone and a delivery date: the shape \<open>DeliveredItemsService\<close> builds.
\<close>

definition DeliveredItemSchema_validate_basic :: "delivered_item \<Rightarrow> bool" where
  "DeliveredItemSchema_validate_basic d \<longleftrightarrow>
     di_itemName d \<noteq> [] \<and> di_description d \<noteq> [] \<and> di_location d \<noteq> [] \<and>
     di_category d \<noteq> [] \<and> di_flightNumber d \<noteq> [] \<and>
     ci_name (di_customerInfo d) \<noteq> [] \<and> ci_email (di_customerInfo d) \<noteq> [] \<and>
     ci_phone (di_customerInfo d) \<noteq> []"

section \<open>Image host\<close>

text \<open>
  The image host is an external service: \<open>uploadFile\<close> and \<open>deleteFile\<close> are parameters
  of the routes that call them, an upload giving \<open>None\<close> and a deletion \<open>False\<close> when the
  service fails. \<open>Promise.all\<close> over the calls fails when one of them does. What the host
  stores is not part of the state.
\<close>

record upload_file =
  buffer :: string
  mimetype :: string
  originalname :: string

type_synonym uploader = "upload_file \<Rightarrow> string \<Rightarrow> string \<Rightarrow> image option"

definition uploadAll :: "uploader \<Rightarrow> upload_file list \<Rightarrow> string \<Rightarrow> string \<Rightarrow> image list option" where
  "uploadAll uploadFile files category flightNumber =
     those (map (\<lambda>file. uploadFile file category flightNumber) files)"

definition deleteAll :: "(string \<Rightarrow> bool) \<Rightarrow> image list \<Rightarrow> bool" where
  "deleteAll deleteFile images = list_all (\<lambda>photo. publicId photo = [] \<or> deleteFile (publicId photo)) images"

section \<open>Lost-item routes\<close>

text \<open>
  The body of an update request: the fields a client may send, each absent or present.
  \<open>ub_dateFound\<close> is what \<open>new Date(...)\<close> makes of a date that was sent.
\<close>

datatype js_date = ValidDate date | InvalidDate

record update_body =
  ub_itemName :: "string option"
  ub_description :: "string option"
  ub_location :: "string option"
  ub_category :: "string option"
  ub_flightNumber :: "string option"
  ub_status :: "string option"
  ub_foundBy :: "objectid option"
  ub_supervisor :: "objectid option"
  ub_dateFound :: "js_date option"

datatype item_reply = ItemMessage string | Item lost_item

definition orElse :: "'a option \<Rightarrow> 'a \<Rightarrow> 'a" where
  "orElse v d = (case v of None \<Rightarrow> d | Some x \<Rightarrow> x)"

text \<open>\<open>otherUpdates\<close>: every field of the body except \<open>status\<close> and \<open>dateFound\<close>.\<close>

definition otherUpdates :: "update_body \<Rightarrow> lost_item \<Rightarrow> lost_item" where
  "otherUpdates b item =
     item\<lparr>li_itemName := orElse (ub_itemName b) (li_itemName item),
          li_description := orElse (ub_description b) (li_description item),
          li_location := orElse (ub_location b) (li_location item),
          li_category := orElse (ub_category b) (li_category item),
          li_flightNumber := orElse (ub_flightNumber b) (li_flightNumber item),
          li_foundBy := orElse (ub_foundBy b) (li_foundBy item),
          li_supervisor := (case ub_supervisor b of None \<Rightarrow> li_supervisor item | Some v \<Rightarrow> Some v)\<rparr>"

text \<open>
  \<open>PUT /:id\<close> of the first lost-items router. The test of the caller comes before
  anything is changed; the status of the body goes through \<open>normalizeStatus\<close>;
  \<open>item.save()\<close> validates against the schema, a populated reference of the loaded
  document counting with the identifier it stores. A failure is answered with 500 by the
  handler's \<open>catch\<close>.
\<close>

definition updateItem ::
    "uploader \<Rightarrow> (string \<Rightarrow> bool) \<Rightarrow> state \<Rightarrow> req_user \<Rightarrow> objectid \<Rightarrow> update_body \<Rightarrow>
     upload_file list \<Rightarrow> (nat \<times> item_reply) \<times> state" where
  "updateItem uploadFile deleteFile st ru i b files =
     (case LostItem_findById st i of
        None \<Rightarrow> ((404, ItemMessage ''Item not found''), st)
      | Some found \<Rightarrow>
          (case notAuthorized ru found of
             None \<Rightarrow> ((500, ItemMessage ''Error updating item''), st)
           | Some True \<Rightarrow> ((403, ItemMessage ''Not authorized to update this item''), st)
           | Some False \<Rightarrow>
               (let item = ll_item found;
                    dateFound = (case ub_dateFound b of
                                   None \<Rightarrow> Some (li_dateFound item)
                                 | Some (ValidDate d) \<Rightarrow> Some d
                                 | Some InvalidDate \<Rightarrow> None);
                    status = (case ub_status b of
                                None \<Rightarrow> li_status item
                              | Some s \<Rightarrow> if s = [] then li_status item else normalizeStatus s);
                    images = (if files \<noteq> []
                              then (if deleteAll deleteFile (li_images item)
                                    then uploadAll uploadFile files ''lost'' (li_flightNumber item)
                                    else None)
                              else Some (li_images item))
                in case (dateFound, images) of
                     (Some d, Some imgs) \<Rightarrow>
                       (let updated = (otherUpdates b item)\<lparr>li_dateFound := d, li_status := status, li_images := imgs\<rparr>
                        in if LostItemSchema_validate updated
                           then ((200, Item updated),
                                 st\<lparr>LostItem_coll := updateOne li_id i (\<lambda>_. updated) (LostItem_coll st)\<rparr>)
                           else ((500, ItemMessage ''Error updating item''), st))
                   | _ \<Rightarrow> ((500, ItemMessage ''Error updating item''), st))))"

text \<open>
  \<open>DELETE /:id\<close> of the first lost-items router, with the same test of the caller. A
  failed deletion of an image is logged and the record is deleted all the same.
\<close>

definition deleteItem :: "state \<Rightarrow> req_user \<Rightarrow> objectid \<Rightarrow> (nat \<times> item_reply) \<times> state" where
  "deleteItem st ru i =
     (case LostItem_findById st i of
        None \<Rightarrow> ((404, ItemMessage ''Item not found''), st)
      | Some found \<Rightarrow>
          (case notAuthorized ru found of
             None \<Rightarrow> ((500, ItemMessage ''Error deleting item''), st)
           | Some True \<Rightarrow> ((403, ItemMessage ''Not authorized to delete this item''), st)
           | Some False \<Rightarrow>
               ((200, ItemMessage ''Item deleted successfully''),
                st\<lparr>LostItem_coll := deleteOne li_id i (LostItem_coll st)\<rparr>)))"

text \<open>
  \<open>PUT /:id\<close> of the second lost-items router: the body is written with
  \<open>findByIdAndUpdate(id, { $set: updates })\<close>, which runs no schema validation and leaves
  the status as it was sent. There is no check of role or ownership.
\<close>

definition updateItem2 :: "state \<Rightarrow> req_user \<Rightarrow> objectid \<Rightarrow> update_body \<Rightarrow> (nat \<times> item_reply) \<times> state" where
  "updateItem2 st ru i b =
     (case findById li_id (LostItem_coll st) i of
        None \<Rightarrow> ((404, ItemMessage ''Item not found''), st)
      | Some item \<Rightarrow>
          (case ub_dateFound b of
             Some InvalidDate \<Rightarrow> ((500, ItemMessage ''Error updating item''), st)
           | _ \<Rightarrow>
               (let updated = (otherUpdates b item)
                      \<lparr>li_dateFound := (case ub_dateFound b of Some (ValidDate d) \<Rightarrow> d | _ \<Rightarrow> li_dateFound item),
                       li_status := orElse (ub_status b) (li_status item)\<rparr>
                in ((200, Item updated),
                    st\<lparr>LostItem_coll := updateOne li_id i (\<lambda>_. updated) (LostItem_coll st)\<rparr>))))"

text \<open>
  \<open>DELETE /:id\<close> of the second lost-items router, again without a check of the caller;
  failed deletions of images are logged and skipped.
\<close>

definition deleteItem2 :: "state \<Rightarrow> req_user \<Rightarrow> objectid \<Rightarrow> (nat \<times> item_reply) \<times> state" where
  "deleteItem2 st ru i =
     (case findById li_id (LostItem_coll st) i of
        None \<Rightarrow> ((404, ItemMessage ''Item not found''), st)
      | Some item \<Rightarrow>
          ((200, ItemMessage ''Item deleted successfully''),
           st\<lparr>LostItem_coll := deleteOne li_id i (LostItem_coll st)\<rparr>))"

section \<open>Delivery\<close>

text \<open>
  \<open>PUT /:id/deliver\<close> of the second lost-items router. \<open>dr_customerInfo\<close> is the result
  of \<open>JSON.parse(req.body.customerInfo)\<close>, \<open>None\<close> when it throws; a failure after the
  item was found is answered with status 500 by the handler's \<open>catch\<close>. The field
  \<open>customerNotes\<close> is the \<open>notes\<close> of the parsed object. The new DeliveredItem is given
  \<open>item.foundBy\<close>, the populated reference: its \<open>foundBy\<close> is required, so \<open>save\<close> throws
  when the finder is no longer stored.
\<close>

record customerInfo_input =
  receiverName :: string
  receiverEmail :: string
  receiverPhone :: string
  receiverIdentification :: string
  customerNotes :: "string option"

record deliver_request =
  dr_customerInfo :: "customerInfo_input option"
  dr_signature :: string
  dr_files :: "upload_file list"

datatype deliver_reply = DeliverMessage string | Delivered delivered_item

definition deliver ::
    "uploader \<Rightarrow> state \<Rightarrow> req_user \<Rightarrow> objectid \<Rightarrow> deliver_request \<Rightarrow> date \<Rightarrow>
     (nat \<times> deliver_reply) \<times> state" where
  "deliver uploadFile st ru i rq currentDate =
     (case LostItem_findById st i of
        None \<Rightarrow> ((404, DeliverMessage ''Item not found''), st)
      | Some found \<Rightarrow>
          (case dr_customerInfo rq of
             None \<Rightarrow> ((500, DeliverMessage ''Error delivering item''), st)
           | Some customerInfo \<Rightarrow>
               if receiverName customerInfo = [] \<or> receiverEmail customerInfo = [] \<or>
                  receiverPhone customerInfo = [] \<or> receiverIdentification customerInfo = [] \<or>
                  dr_signature rq = []
               then ((400, DeliverMessage ''Missing required fields''), st)
               else
                 (let item = ll_item found in
                  case (if dr_files rq \<noteq> []
                        then uploadAll uploadFile (dr_files rq) ''delivered'' (li_flightNumber item)
                        else Some []) of
                    None \<Rightarrow> ((500, DeliverMessage ''Error delivering item''), st)
                  | Some deliveryPhotos \<Rightarrow>
                      (case castToObjectId (ll_foundBy found) of
                         None \<Rightarrow> ((500, DeliverMessage ''Error delivering item''), usedObjectId st)
                       | Some foundBy \<Rightarrow>
                           (let deliveredItem =
                                  \<lparr>di_id = nextObjectId st,
                                   di_itemName = (if li_itemName item \<noteq> [] then li_itemName item
                                                  else li_description item),
                                   di_description = li_description item,
                                   di_location = li_location item,
                                   di_category = li_category item,
                                   di_images = li_images item,
                                   di_foundBy = foundBy,
                                   di_deliveredBy = Some (ru_id ru),
                                   di_flightNumber = li_flightNumber item,
                                   di_dateFound = li_dateFound item,
                                   di_dateDelivered = currentDate,
                                   di_archived = False,
                                   di_customerInfo =
                                     \<lparr>ci_name = receiverName customerInfo,
                                      ci_email = receiverEmail customerInfo,
                                      ci_phone = receiverPhone customerInfo,
                                      ci_identification = Some (receiverIdentification customerInfo),
                                      ci_signature = Some (dr_signature rq),
                                      ci_deliveryDate = None\<rparr>,
                                   di_deliveryNotes = customerNotes customerInfo,
                                   di_deliveryPhotos = deliveryPhotos\<rparr>
                            in if \<not> DeliveredItemSchema_validate deliveredItem
                               then ((500, DeliverMessage ''Error delivering item''), usedObjectId st)
                               else ((200, Delivered deliveredItem),
                                     (usedObjectId st)
                                       \<lparr>DeliveredItem_coll := DeliveredItem_coll st @ [deliveredItem],
                                        LostItem_coll := deleteOne li_id i (LostItem_coll st)\<rparr>))))))"

text \<open>
  \<open>DeliveredItemsService\<close>: \<open>createDeliveredItem\<close> saves a copy of the lost item, and
  \<open>markAsDelivered\<close> then updates the lost item in place. \<open>validate\<close> is the DeliveredItem
  schema in force; a failed \<open>save\<close> is rethrown, which is the result \<open>None\<close>.
\<close>

record deliveryData =
  customerName :: string
  customerEmail :: string
  customerPhone :: string

definition createDeliveredItem ::
    "(delivered_item \<Rightarrow> bool) \<Rightarrow> state \<Rightarrow> lost_item \<Rightarrow> customer_info \<Rightarrow> date \<Rightarrow>
     delivered_item option \<times> state" where
  "createDeliveredItem validate st lostItem customerInfo now =
     (let deliveredItem =
            \<lparr>di_id = nextObjectId st,
             di_itemName = li_itemName lostItem,
             di_description = li_description lostItem,
             di_location = li_location lostItem,
             di_category = li_category lostItem,
             di_images = li_images lostItem,
             di_foundBy = li_foundBy lostItem,
             di_deliveredBy = None,
             di_flightNumber = li_flightNumber lostItem,
             di_dateFound = li_dateFound lostItem,
             di_dateDelivered = now,
             di_archived = False,
             di_customerInfo = customerInfo\<lparr>ci_deliveryDate := Some now\<rparr>,
             di_deliveryNotes = None,
             di_deliveryPhotos = []\<rparr>
      in if validate deliveredItem
         then (Some deliveredItem,
               (usedObjectId st)\<lparr>DeliveredItem_coll := DeliveredItem_coll st @ [deliveredItem]\<rparr>)
         else (None, usedObjectId st))"

definition markAsDelivered ::
    "(delivered_item \<Rightarrow> bool) \<Rightarrow> state \<Rightarrow> lost_item \<Rightarrow> deliveryData \<Rightarrow> objectid \<Rightarrow> date \<Rightarrow>
     delivered_item option \<times> state" where
  "markAsDelivered validate st item deliveryInfo deliveredBy now =
     (case createDeliveredItem validate st item
             \<lparr>ci_name = customerName deliveryInfo, ci_email = customerEmail deliveryInfo,
              ci_phone = customerPhone deliveryInfo, ci_identification = None,
              ci_signature = None, ci_deliveryDate = Some now\<rparr> now of
        (None, st') \<Rightarrow> (None, st')
      | (Some deliveredItem, st') \<Rightarrow>
          (Some deliveredItem,
           st'\<lparr>LostItem_coll :=
                 updateOne li_id (li_id item)
                   (\<lambda>l. l\<lparr>li_status := ''delivered'', li_deliveredBy := Some deliveredBy,
                           li_deliveredAt := Some now\<rparr>)
                   (LostItem_coll st')\<rparr>))"

section \<open>Reverting a delivery\<close>

text \<open>
  \<open>POST /:id/revert\<close> of the delivered-items router, behind \<open>checkRole(['admin'])\<close>. The
  new LostItem is given no status, so it takes the schema's default. It is given
  \<open>deliveredItem.foundBy\<close>, the populated reference, and its \<open>foundBy\<close> is required.
\<close>

datatype revert_reply = RevertMessage string | AccessDenied | Reverted lost_item

definition revert :: "state \<Rightarrow> req_user \<Rightarrow> objectid \<Rightarrow> (nat \<times> revert_reply) \<times> state" where
  "revert st ru i =
     (if \<not> checkRole [''admin''] ru then ((403, AccessDenied), st)
      else
        (case DeliveredItem_findById st i of
           None \<Rightarrow> ((404, RevertMessage ''Delivered item not found''), st)
         | Some found \<Rightarrow>
             (case castToObjectId (ld_foundBy found) of
                None \<Rightarrow> ((500, RevertMessage ''Error reverting item''), usedObjectId st)
              | Some foundBy \<Rightarrow>
                  (let deliveredItem = ld_item found;
                       lostItem =
                         \<lparr>li_id = nextObjectId st,
                          li_itemName = di_itemName deliveredItem,
                          li_description = di_description deliveredItem,
                          li_location = di_location deliveredItem,
                          li_category = di_category deliveredItem,
                          li_status = LostItemSchema_status_default,
                          li_images = di_images deliveredItem,
                          li_foundBy = foundBy,
                          li_supervisor = Some (ru_id ru),
                          li_deliveredBy = None,
                          li_deliveredAt = None,
                          li_flightNumber = di_flightNumber deliveredItem,
                          li_dateFound = di_dateDelivered deliveredItem\<rparr>
                   in if \<not> LostItemSchema_validate lostItem
                      then ((500, RevertMessage ''Error reverting item''), usedObjectId st)
                      else ((200, Reverted lostItem),
                            (usedObjectId st)
                              \<lparr>LostItem_coll := LostItem_coll st @ [lostItem],
                               DeliveredItem_coll := deleteOne di_id i (DeliveredItem_coll st)\<rparr>)))))"

section \<open>Listing items\<close>








text \<open>
  The other list routes answer with the populated documents as they are: \<open>GET /\<close> of the
  first lost-items router and \<open>GET /search/:term\<close> of the second, and \<open>GET /\<close> and
  \<open>GET /my\<close> of the delivered-items router, again from the documents their query found.
\<close>

definition listLostItems :: "state \<Rightarrow> lost_item list \<Rightarrow> nat \<times> listed_lost_item list" where
  "listLostItems st items = (200, map (populateLostItem (User_coll st)) items)"

definition listDeliveredItems :: "state \<Rightarrow> delivered_item list \<Rightarrow> nat \<times> listed_delivered_item list" where
  "listDeliveredItems st items = (200, map (populateDeliveredItem (User_coll st)) items)"

section \<open>Notions used in the statements\<close>



text \<open>
  The lifecycle invariant of the data model: no stored LostItem has status \<open>delivered\<close>,
  and none is also represented by a DeliveredItem. The documents carry no common
  identifier, so a DeliveredItem represents a LostItem when it has the fields that a
  delivery copies.
\<close>

definition represents :: "delivered_item \<Rightarrow> lost_item \<Rightarrow> bool" where
  "represents d l \<longleftrightarrow>
     di_itemName d = li_itemName l \<and> di_description d = li_description l \<and>
     di_location d = li_location l \<and> di_category d = li_category l \<and>
     di_images d = li_images l \<and> di_foundBy d = li_foundBy l \<and>
     di_flightNumber d = li_flightNumber l \<and> di_dateFound d = li_dateFound l"

definition lifecycle_invariant :: "state \<Rightarrow> bool" where
  "lifecycle_invariant st \<longleftrightarrow>
     (\<forall>l\<in>set (LostItem_coll st).
        li_status l \<noteq> ''delivered'' \<and> (\<forall>d\<in>set (DeliveredItem_coll st). \<not> represents d l))"

section \<open>A small store\<close>

text \<open>
  An administrator, the employee who found a bag, a second employee, one permission held
  by the finder and one held by nobody, and the bag as a LostItem.
\<close>

definition ex_admin :: user where
  "ex_admin = \<lparr>user_id = 1, employeeNumber = ''A001'', password = ''h1'', firstName = ''Ada'',
               lastName = ''Stone'', role = ''admin'', permissions = [], createdAt = 0, updatedAt = 0\<rparr>"

definition ex_finder :: user where
  "ex_finder = \<lparr>user_id = 2, employeeNumber = ''E002'', password = ''h2'', firstName = ''Ben'',
                lastName = ''Roy'', role = ''employee'', permissions = [5], createdAt = 0, updatedAt = 0\<rparr>"

definition ex_other :: user where
  "ex_other = \<lparr>user_id = 3, employeeNumber = ''E003'', password = ''h3'', firstName = ''Cy'',
               lastName = ''Lee'', role = ''employee'', permissions = [], createdAt = 0, updatedAt = 0\<rparr>"

definition ex_item :: lost_item where
  "ex_item = \<lparr>li_id = 10, li_itemName = ''Bag'', li_description = ''Black bag'', li_location = ''Gate 4'',
              li_category = ''Luggage'', li_status = ''onHand'', li_images = [], li_foundBy = 2,
              li_supervisor = Some 1, li_deliveredBy = None, li_deliveredAt = None,
              li_flightNumber = ''AC123'', li_dateFound = 1000\<rparr>"

definition ex_state :: state where
  "ex_state = \<lparr>User_coll = [ex_admin, ex_finder, ex_other],
               Permission_coll = [\<lparr>perm_id = 5, perm_name = ''view_items'', perm_description = ''View items''\<rparr>,
                                  \<lparr>perm_id = 6, perm_name = ''view_reports'', perm_description = ''View reports''\<rparr>],
               LostItem_coll = [ex_item], DeliveredItem_coll = [], nextObjectId = 20\<rparr>"

definition ex_request :: deliver_request where
  "ex_request = \<lparr>dr_customerInfo = Some \<lparr>receiverName = ''Dee'', receiverEmail = ''dee@example.org'',
                                          receiverPhone = ''555'', receiverIdentification = ''P42'',
                                          customerNotes = None\<rparr>,
                 dr_signature = ''sig'', dr_files = []\<rparr>"

definition ex_delivered :: delivered_item where
  "ex_delivered = \<lparr>di_id = 20, di_itemName = ''Bag'', di_description = ''Black bag'', di_location = ''Gate 4'',
                   di_category = ''Luggage'', di_images = [], di_foundBy = 2, di_deliveredBy = Some 1,
                   di_flightNumber = ''AC123'', di_dateFound = 1000, di_dateDelivered = 5000,
                   di_archived = False,
                   di_customerInfo = \<lparr>ci_name = ''Dee'', ci_email = ''dee@example.org'', ci_phone = ''555'',
                                      ci_identification = Some ''P42'', ci_signature = Some ''sig'',
                                      ci_deliveryDate = None\<rparr>,
                   di_deliveryNotes = None, di_deliveryPhotos = []\<rparr>"

definition ex_state_delivered :: state where
  "ex_state_delivered = \<lparr>User_coll = [ex_admin, ex_finder, ex_other], Permission_coll = [],
                         LostItem_coll = [], DeliveredItem_coll = [ex_delivered], nextObjectId = 21\<rparr>"

definition ex_body :: update_body where
  "ex_body = \<lparr>ub_itemName = None, ub_description = Some ''Mine'', ub_location = None, ub_category = None,
              ub_flightNumber = None, ub_status = None, ub_foundBy = Some 3, ub_supervisor = None,
              ub_dateFound = None\<rparr>"

definition ex_upload :: uploader where
  "ex_upload file category flightNumber =
     Some \<lparr>url = originalname file, publicId = category, thumbnailUrl = flightNumber\<rparr>"

definition ex_verify :: "string \<Rightarrow> jwt_result" where
  "ex_verify token =
     (if token = ''t2'' then Decoded (Some 2)
      else if token = ''t9'' then Decoded (Some 9)
      else if token = ''old'' then TokenExpiredError
      else JsonWebTokenError)"

definition ex_user_model :: user_model where
  "ex_user_model = \<lparr>um_validate = (\<lambda>u. 6 \<le> length (password u)), um_hash = rev\<rparr>"

definition ex_register_body :: register_body where
  "ex_register_body = \<lparr>rb_employeeNumber = ''E004'', rb_password = ''secret'', rb_firstName = ''Di'',
                       rb_lastName = ''Fox'', rb_role = Some ''admin''\<rparr>"

section \<open>Properties\<close>

subsection \<open>Status normalisation\<close>

lemma toLowerCase_samples:
  "toLowerCase ''on-hand'' = ''on-hand''"
  "toLowerCase ''onHand'' = ''onhand''"
  "toLowerCase ''in-process'' = ''in-process''"
  "toLowerCase ''inProcess'' = ''inprocess''"
  "toLowerCase ''delivered'' = ''delivered''"
  by code_simp+

text \<open>
  Claim C6. The hyphenated external status names and the internal tokens normalise to the
  same internal token: \<open>on-hand\<close> and \<open>onHand\<close> both give \<open>onHand\<close>, \<open>in-process\<close> and
  \<open>inProcess\<close> both give \<open>inProcess\<close>, and \<open>delivered\<close> gives \<open>delivered\<close>.
\<close>

theorem normalizeStatus_vocabulary:
  "normalizeStatus ''on-hand'' = ''onHand'' \<and>
   normalizeStatus ''onHand'' = ''onHand'' \<and>
   normalizeStatus ''in-process'' = ''inProcess'' \<and>
   normalizeStatus ''inProcess'' = ''inProcess'' \<and>
   normalizeStatus ''delivered'' = ''delivered''"
  by (simp add: normalizeStatus_def toLowerCase_samples statusMap_def)

subsection \<open>Collections\<close>

lemma findById_Some: "findById key xs i = Some d \<Longrightarrow> d \<in> set xs \<and> key d = i"
  by (auto simp: findById_def find_Some_iff)

lemma findById_deleteOne:
  "distinct (map key xs) \<Longrightarrow> findById key (deleteOne key i xs) i = None"
proof (induction xs)
  case Nil
  then show ?case by (simp add: findById_def)
next
  case (Cons d ds)
  show ?case
  proof (cases "key d = i")
    case True
    from Cons.prems have "key d \<notin> key ` set ds" by simp
    with True have "\<forall>x\<in>set ds. key x \<noteq> i" by blast
    with True show ?thesis by (simp add: findById_def find_None_iff)
  next
    case False
    with Cons show ?thesis by (simp add: findById_def)
  qed
qed

lemma set_deleteOne_subset: "set (deleteOne key i xs) \<subseteq> set xs"
  by (induction xs) auto

lemma deleteOne_absent:
  "distinct (map key xs) \<Longrightarrow> i \<notin> key ` set (deleteOne key i xs)"
  using findById_deleteOne [of key xs i] by (auto simp: findById_def find_None_iff)

subsection \<open>Authentication gate\<close>

text \<open>
  What the gate does, case by case: it answers 401 exactly when there is no credential (no
  header, or nothing left of it once \<open>Bearer\<close> is removed), when verification of the token
  fails, or when the lookup by the payload's \<open>id\<close> finds no record, which is also the case
  of a payload without \<open>id\<close>; otherwise it goes on with the identity of the user found.
\<close>

lemma auth_cases:
  "((\<exists>code. auth verify us header = Rejected 401 code) \<longleftrightarrow>
      (bearerToken header = None \<or> bearerToken header = Some [] \<or>
       (\<exists>t. bearerToken header = Some t \<and>
          (verify t = JsonWebTokenError \<or> verify t = TokenExpiredError \<or>
           (\<exists>i. verify t = Decoded i \<and> Option.bind i (findById user_id us) = None))))) \<and>
   ((\<forall>code. auth verify us header \<noteq> Rejected 401 code) \<longrightarrow>
      (\<exists>t i u r. bearerToken header = Some t \<and> verify t = Decoded (Some i) \<and>
         findById user_id us i = Some u \<and> auth verify us header = Next r \<and>
         ru_id r = user_id u \<and> ru_employeeNumber r = employeeNumber u \<and>
         ru_firstName r = firstName u \<and> ru_lastName r = lastName u \<and>
         ru_role r = role u \<and> ru_permissions r = permissions u))"
  by (auto simp: auth_def identity_def
      split: option.splits jwt_result.splits if_splits Option.bind_splits)

lemma auth_examples:
  "auth ex_verify (User_coll ex_state) (Some ''Bearer t2'') = Next (identity ex_finder)"
  "auth ex_verify (User_coll ex_state) None = Rejected 401 ''NO_TOKEN''"
  "auth ex_verify (User_coll ex_state) (Some ''Bearer '') = Rejected 401 ''NO_TOKEN''"
  "auth ex_verify (User_coll ex_state) (Some ''Bearer forged'') = Rejected 401 ''INVALID_TOKEN''"
  "auth ex_verify (User_coll ex_state) (Some ''Bearer old'') = Rejected 401 ''INVALID_TOKEN''"
  "auth ex_verify (User_coll ex_state) (Some ''Bearer t9'') = Rejected 401 ''USER_NOT_FOUND''"
  by (simp_all add: auth_def bearerToken_def ex_verify_def findById_def ex_state_def ex_admin_def
      ex_finder_def ex_other_def)

text \<open>
  Claim C5 on the token that the second router's \<open>POST /register\<close> returns. The route
  creates user 20 and signs a payload that carries the identifier as \<open>_id\<close> and has no
  \<open>id\<close>. Presented to the gate, this credential is supplied, validly signed and not
  expired, and user 20 is stored; the gate answers 401 with \<open>USER_NOT_FOUND\<close> instead of
  attaching the identity.
\<close>

theorem auth_rejects_token_of_second_register:
  "\<exists>payload view st' u.
      register2 ex_user_model ex_state ex_register_body 7 = ((201, Registered payload view), st') \<and>
      tp_id payload = None \<and> tp_underscore_id payload = Some 20 \<and>
      findById user_id (User_coll st') 20 = Some u \<and> employeeNumber u = ''E004'' \<and>
      bearerToken (Some ''Bearer issued'') = Some ''issued'' \<and>
      verifyIssued payload ''issued'' = Decoded None \<and>
      auth (verifyIssued payload) (User_coll st') (Some ''Bearer issued'') =
        Rejected 401 ''USER_NOT_FOUND''"
  by (simp add: register2_def saveUser_def usedObjectId_def auth_def bearerToken_def verifyIssued_def
      findById_def ex_user_model_def ex_register_body_def ex_state_def ex_admin_def ex_finder_def
      ex_other_def)

subsection \<open>Registration\<close>

text \<open>
  Claim C9. A user created by either registration route has role \<open>employee\<close>, and the
  outcome of a registration (reply and store) does not depend on a \<open>role\<close> field of the
  request body: two requests that differ only there are answered alike.
\<close>

theorem register_role_employee:
  "(\<forall>rep st'. register um st b now = ((201, rep), st') \<longrightarrow>
      (\<exists>u. User_coll st' = User_coll st @ [u] \<and> role u = ''employee'')) \<and>
   (\<forall>rep st'. register2 um st b now = ((201, rep), st') \<longrightarrow>
      (\<exists>u. User_coll st' = User_coll st @ [u] \<and> role u = ''employee'')) \<and>
   register um st (b\<lparr>rb_role := r\<rparr>) now = register um st (b\<lparr>rb_role := r'\<rparr>) now \<and>
   register2 um st (b\<lparr>rb_role := r\<rparr>) now = register2 um st (b\<lparr>rb_role := r'\<rparr>) now"
  by (auto simp: register_def register2_def saveUser_def usedObjectId_def Let_def
      split: option.splits if_splits)

theorem register_role_employee_witness:
  "fst (fst (register ex_user_model ex_state ex_register_body 7)) = 201 \<and>
   (\<exists>u. User_coll (snd (register ex_user_model ex_state ex_register_body 7)) = User_coll ex_state @ [u] \<and>
        role u = ''employee'') \<and>
   fst (fst (register2 ex_user_model ex_state ex_register_body 7)) = 201 \<and>
   (\<exists>u. User_coll (snd (register2 ex_user_model ex_state ex_register_body 7)) = User_coll ex_state @ [u] \<and>
        role u = ''employee'')"
proof -
  let ?r = "register ex_user_model ex_state ex_register_body 7"
  let ?r2 = "register2 ex_user_model ex_state ex_register_body 7"
  have a: "fst (fst ?r) = 201"
    by (simp add: register_def saveUser_def usedObjectId_def defaultPermissionNames_def
        ex_user_model_def ex_register_body_def ex_state_def ex_admin_def ex_finder_def ex_other_def)
  have a2: "fst (fst ?r2) = 201"
    by (simp add: register2_def saveUser_def usedObjectId_def
        ex_user_model_def ex_register_body_def ex_state_def ex_admin_def ex_finder_def ex_other_def)
  have e: "?r = ((201, snd (fst ?r)), snd ?r)" using a by (metis prod.collapse)
  have e2: "?r2 = ((201, snd (fst ?r2)), snd ?r2)" using a2 by (metis prod.collapse)
  show ?thesis
    using a a2 e e2 register_role_employee [of ex_user_model ex_state ex_register_body 7]
    by blast
qed

subsection \<open>Permissions of a user\<close>

text \<open>
  With pairwise different names in the catalog, the documents matched by a list of names
  are as many as the names of the list that occur in the catalog.
\<close>

lemma matched_length:
  assumes "distinct (map f ps)"
  shows "length (filter (\<lambda>p. f p \<in> set ns) ps) = card (set ns \<inter> f ` set ps)"
proof -
  have d: "distinct (map f (filter (\<lambda>p. f p \<in> set ns) ps))"
    using assms by (rule distinct_map_filter)
  have "length (filter (\<lambda>p. f p \<in> set ns) ps) = length (map f (filter (\<lambda>p. f p \<in> set ns) ps))"
    by simp
  also have "\<dots> = card (set (map f (filter (\<lambda>p. f p \<in> set ns) ps)))"
    using d by (simp only: distinct_card)
  also have "set (map f (filter (\<lambda>p. f p \<in> set ns) ps)) = set ns \<inter> f ` set ps"
    by auto
  finally show ?thesis .
qed

lemma matched_short:
  assumes "distinct (map f ps)" and "\<not> distinct ns \<or> \<not> set ns \<subseteq> f ` set ps"
  shows "length (filter (\<lambda>p. f p \<in> set ns) ps) < length ns"
proof -
  have le: "card (set ns \<inter> f ` set ps) \<le> card (set ns)"
    by (rule card_mono) auto
  from assms(2) have "card (set ns \<inter> f ` set ps) < length ns"
  proof
    assume "\<not> distinct ns"
    then have "card (set ns) \<noteq> length ns" using card_distinct by blast
    then have "card (set ns) < length ns" using card_length [of ns] by linarith
    with le show ?thesis by linarith
  next
    assume "\<not> set ns \<subseteq> f ` set ps"
    then have "set ns \<inter> f ` set ps \<subset> set ns" by auto
    then have "card (set ns \<inter> f ` set ps) < card (set ns)"
      by (simp add: psubset_card_mono)
    then show ?thesis using card_length [of ns] by linarith
  qed
  then show ?thesis by (simp add: matched_length [OF assms(1)])
qed

text \<open>
  Claim C10. A request of an administrator to replace a user's permissions, whose list of
  names repeats a name or contains a name that is not in the catalog, is answered with
  400 (invalid permissions) and changes nothing in the store. The names of the catalog
  are pairwise different, as the unique index on \<open>name\<close> has it.
\<close>

theorem updateUserPermissions_rejects:
  assumes "findById user_id (User_coll st) (ru_id ru) = Some a" and "role a = ''admin''"
      and "distinct (map perm_name (Permission_coll st))"
      and "\<not> distinct names \<or> \<not> set names \<subseteq> perm_name ` set (Permission_coll st)"
  shows "updateUserPermissions st ru userId names =
           ((400, PermissionsMessage ''Invalid permissions provided''), st)"
proof -
  have "length (filter (\<lambda>p. perm_name p \<in> set names) (Permission_coll st)) \<noteq> length names"
    using matched_short [OF assms(3) assms(4)] by simp
  then show ?thesis
    using assms(1,2) by (simp add: updateUserPermissions_def)
qed

theorem updateUserPermissions_rejects_witness:
  "findById user_id (User_coll ex_state) (ru_id (identity ex_admin)) = Some ex_admin \<and>
   role ex_admin = ''admin'' \<and>
   distinct (map perm_name (Permission_coll ex_state)) \<and>
   \<not> distinct [''view_items'', ''view_items''] \<and>
   updateUserPermissions ex_state (identity ex_admin) 2 [''view_items'', ''view_items''] =
     ((400, PermissionsMessage ''Invalid permissions provided''), ex_state)"
proof -
  have a: "findById user_id (User_coll ex_state) (ru_id (identity ex_admin)) = Some ex_admin"
    by (simp add: ex_state_def ex_admin_def findById_def identity_def)
  have b: "role ex_admin = ''admin''" by (simp add: ex_admin_def)
  have c: "distinct (map perm_name (Permission_coll ex_state))" by (simp add: ex_state_def)
  have d: "\<not> distinct [''view_items'', ''view_items''] \<or>
           \<not> set [''view_items'', ''view_items''] \<subseteq> perm_name ` set (Permission_coll ex_state)"
    by simp
  show ?thesis
    using a b c updateUserPermissions_rejects [OF a b c d, of 2] by simp
qed

subsection \<open>Permission catalog\<close>

text \<open>
  Claim C7. When an administrator deletes a stored permission that some user references,
  the reply is 400 with code \<open>PERMISSION_IN_USE\<close> and a list that holds the summary
  (identifier, name, employee number) of every referencing user, and the store is
  unchanged; when no user references it, the reply is 200 and the permission is no longer
  in the catalog.
\<close>

theorem deletePermission_in_use:
  assumes "findById user_id (User_coll st) (ru_id ru) = Some a" and "role a = ''admin''"
      and "findById perm_id (Permission_coll st) pid = Some p"
      and "distinct (map perm_id (Permission_coll st))"
  shows "((\<exists>u\<in>set (User_coll st). pid \<in> set (permissions u)) \<longrightarrow>
            (\<exists>listed. deletePermission st ru pid =
               ((400, InUse ''Permission is in use and cannot be deleted'' ''PERMISSION_IN_USE'' listed), st) \<and>
               (\<forall>u\<in>set (User_coll st). pid \<in> set (permissions u) \<longrightarrow> summary u \<in> set listed))) \<and>
         (\<not> (\<exists>u\<in>set (User_coll st). pid \<in> set (permissions u)) \<longrightarrow>
            (\<exists>st'. deletePermission st ru pid =
               ((200, DeleteMessage ''Permission deleted successfully''), st') \<and>
               findById perm_id (Permission_coll st') pid = None \<and>
               User_coll st' = User_coll st))"
proof -
  have pid: "perm_id p = pid" using assms(3) by (simp add: findById_Some)
  have refs: "set (usersWithPermission st pid) = {u \<in> set (User_coll st). pid \<in> set (permissions u)}"
    by (auto simp: usersWithPermission_def)
  show ?thesis
  proof (intro conjI impI)
    assume "\<exists>u\<in>set (User_coll st). pid \<in> set (permissions u)"
    then have "usersWithPermission st pid \<noteq> []" using refs by fastforce
    then have "deletePermission st ru pid =
        ((400, InUse ''Permission is in use and cannot be deleted'' ''PERMISSION_IN_USE''
                 (map summary (usersWithPermission st pid))), st)"
      using assms(1-3) pid by (simp add: deletePermission_def)
    moreover have "\<forall>u\<in>set (User_coll st). pid \<in> set (permissions u) \<longrightarrow>
        summary u \<in> set (map summary (usersWithPermission st pid))"
      using refs by auto
    ultimately show "\<exists>listed. deletePermission st ru pid =
               ((400, InUse ''Permission is in use and cannot be deleted'' ''PERMISSION_IN_USE'' listed), st) \<and>
               (\<forall>u\<in>set (User_coll st). pid \<in> set (permissions u) \<longrightarrow> summary u \<in> set listed)"
      by blast
  next
    assume "\<not> (\<exists>u\<in>set (User_coll st). pid \<in> set (permissions u))"
    then have "usersWithPermission st pid = []"
      by (simp add: usersWithPermission_def filter_empty_conv)
    then have "deletePermission st ru pid =
        ((200, DeleteMessage ''Permission deleted successfully''),
         st\<lparr>Permission_coll := deleteOne perm_id pid (Permission_coll st)\<rparr>)"
      using assms(1-3) pid by (simp add: deletePermission_def)
    then show "\<exists>st'. deletePermission st ru pid =
               ((200, DeleteMessage ''Permission deleted successfully''), st') \<and>
               findById perm_id (Permission_coll st') pid = None \<and>
               User_coll st' = User_coll st"
      using findById_deleteOne [OF assms(4), of pid] by simp
  qed
qed

theorem deletePermission_in_use_witness:
  "deletePermission ex_state (identity ex_admin) 5 =
     ((400, InUse ''Permission is in use and cannot be deleted'' ''PERMISSION_IN_USE''
              [\<lparr>us_id = 2, us_name = ''Ben Roy'', us_employeeNumber = ''E002''\<rparr>]), ex_state) \<and>
   (\<exists>st'. deletePermission (ex_state\<lparr>User_coll := [ex_admin, ex_finder\<lparr>permissions := []\<rparr>, ex_other]\<rparr>)
             (identity ex_admin) 5 =
             ((200, DeleteMessage ''Permission deleted successfully''), st') \<and>
           findById perm_id (Permission_coll st') 5 = None)"
proof -
  let ?p = "\<lparr>perm_id = 5, perm_name = ''view_items'', perm_description = ''View items''\<rparr>"
  let ?st = "ex_state\<lparr>User_coll := [ex_admin, ex_finder\<lparr>permissions := []\<rparr>, ex_other]\<rparr>"
  have a: "findById user_id (User_coll ex_state) (ru_id (identity ex_admin)) = Some ex_admin"
    by (simp add: ex_state_def ex_admin_def findById_def identity_def)
  have a': "findById user_id (User_coll ?st) (ru_id (identity ex_admin)) = Some ex_admin"
    by (simp add: ex_state_def ex_admin_def findById_def identity_def)
  have b: "role ex_admin = ''admin''" by (simp add: ex_admin_def)
  have p: "findById perm_id (Permission_coll ex_state) 5 = Some ?p"
    by (simp add: ex_state_def findById_def)
  have p': "findById perm_id (Permission_coll ?st) 5 = Some ?p"
    by (simp add: ex_state_def findById_def)
  have d: "distinct (map perm_id (Permission_coll ex_state))" by (simp add: ex_state_def)
  have d': "distinct (map perm_id (Permission_coll ?st))" by (simp add: ex_state_def)
  have r: "\<exists>u\<in>set (User_coll ex_state). 5 \<in> set (permissions u)"
    by (simp add: ex_state_def ex_finder_def)
  have r': "\<not> (\<exists>u\<in>set (User_coll ?st). 5 \<in> set (permissions u))"
    by (simp add: ex_admin_def ex_finder_def ex_other_def)
  have e: "deletePermission ex_state (identity ex_admin) 5 =
     ((400, InUse ''Permission is in use and cannot be deleted'' ''PERMISSION_IN_USE''
              [\<lparr>us_id = 2, us_name = ''Ben Roy'', us_employeeNumber = ''E002''\<rparr>]), ex_state)"
    by (simp add: deletePermission_def usersWithPermission_def summary_def findById_def identity_def
        ex_state_def ex_admin_def ex_finder_def ex_other_def)
  show ?thesis
    using e r r' deletePermission_in_use [OF a b p d] deletePermission_in_use [OF a' b p' d']
    by blast
qed

subsection \<open>Delivery\<close>



lemma castToObjectId_populate_None:
  "findById user_id us i = None \<Longrightarrow> castToObjectId (populate us (Some i)) = None"
  by (simp add: castToObjectId_def populate_def)




subsection \<open>The lifecycle invariant\<close>

text \<open>
  Claim C2, as stated, fails: \<open>DeliveredItemsService.markAsDelivered\<close> saves a
  DeliveredItem and keeps the LostItem, whose status it sets to \<open>delivered\<close>. From a store
  that satisfies the invariant it leads to one that does not: the bag is in both
  collections, as a LostItem with status \<open>delivered\<close>.
\<close>

theorem markAsDelivered_breaks_invariant:
  "lifecycle_invariant ex_state \<and>
   \<not> lifecycle_invariant
       (snd (markAsDelivered DeliveredItemSchema_validate_basic ex_state ex_item
               \<lparr>customerName = ''Dee'', customerEmail = ''dee@example.org'', customerPhone = ''555''\<rparr>
               1 5000)) \<and>
   map li_status
     (LostItem_coll
       (snd (markAsDelivered DeliveredItemSchema_validate_basic ex_state ex_item
               \<lparr>customerName = ''Dee'', customerEmail = ''dee@example.org'', customerPhone = ''555''\<rparr>
               1 5000))) = [''delivered''] \<and>
   map di_description
     (DeliveredItem_coll
       (snd (markAsDelivered DeliveredItemSchema_validate_basic ex_state ex_item
               \<lparr>customerName = ''Dee'', customerEmail = ''dee@example.org'', customerPhone = ''555''\<rparr>
               1 5000))) = [''Black bag'']"
  by (simp add: lifecycle_invariant_def represents_def Let_def markAsDelivered_def createDeliveredItem_def
      DeliveredItemSchema_validate_basic_def usedObjectId_def ex_state_def ex_item_def)

text \<open>
  Against the DeliveredItem schema that requires a customer's identification and
  signature, the service cannot save its copy, and nothing but the identifier counter
  changes: the service belongs with the schema whose customer information is name, email,
  phone and delivery date.
\<close>

lemma markAsDelivered_needs_basic_schema:
  "markAsDelivered DeliveredItemSchema_validate st item deliveryInfo deliveredBy now =
     (None, usedObjectId st)"
  by (simp add: markAsDelivered_def createDeliveredItem_def Let_def DeliveredItemSchema_validate_def)

text \<open>
  An edit may store the status \<open>delivered\<close> as well: the first router normalises it to
  itself and the schema's enumeration admits it.
\<close>

lemma edit_stores_delivered:
  "map li_status
     (LostItem_coll
        (snd (updateItem ex_upload (\<lambda>_. True) ex_state (identity ex_admin) 10
                (ex_body\<lparr>ub_status := Some ''delivered''\<rparr>) []))) = [''delivered'']"
  by (simp add: updateItem_def Let_def LostItem_findById_def populateLostItem_def populate_def
      notAuthorized_def otherUpdates_def orElse_def findById_def identity_def
      normalizeStatus_def toLowerCase_samples statusMap_def LostItemSchema_validate_def
      LostItemSchema_status_enum_def ex_state_def ex_item_def ex_admin_def ex_finder_def
      ex_other_def ex_body_def)

text \<open>
  Claim C2, amended. The deliver route leaves no dual representation: whatever its answer,
  every LostItem of the store afterwards was in the store before, unchanged; when it
  answers 200 no LostItem with the delivered identifier is left and exactly the returned
  DeliveredItem was added; with any other answer both collections are as they were.
\<close>

theorem deliver_migrates:
  assumes "distinct (map li_id (LostItem_coll st))"
      and "deliver uploadFile st ru i rq now = ((code, rep), st')"
  shows "set (LostItem_coll st') \<subseteq> set (LostItem_coll st) \<and>
         (if code = 200
          then i \<notin> li_id ` set (LostItem_coll st') \<and>
               (\<exists>d. rep = Delivered d \<and> DeliveredItem_coll st' = DeliveredItem_coll st @ [d])
          else LostItem_coll st' = LostItem_coll st \<and>
               DeliveredItem_coll st' = DeliveredItem_coll st)"
  using assms(2) deleteOne_absent [OF assms(1), of i] set_deleteOne_subset [of li_id i "LostItem_coll st"]
  by (auto simp: deliver_def Let_def usedObjectId_def split: option.splits if_splits)

theorem deliver_migrates_witness:
  "distinct (map li_id (LostItem_coll ex_state)) \<and>
   deliver ex_upload ex_state (identity ex_finder) 10 (ex_request\<lparr>dr_signature := []\<rparr>) 5000 =
     ((400, DeliverMessage ''Missing required fields''), ex_state) \<and>
   fst (fst (deliver ex_upload ex_state (identity ex_finder) 10 ex_request 5000)) = 200 \<and>
   LostItem_coll (snd (deliver ex_upload ex_state (identity ex_finder) 10 ex_request 5000)) = [] \<and>
   length (DeliveredItem_coll (snd (deliver ex_upload ex_state (identity ex_finder) 10 ex_request 5000))) = 1"
proof -
  let ?r = "deliver ex_upload ex_state (identity ex_finder) 10 ex_request 5000"
  have d: "distinct (map li_id (LostItem_coll ex_state))" by (simp add: ex_state_def)
  have a: "deliver ex_upload ex_state (identity ex_finder) 10 (ex_request\<lparr>dr_signature := []\<rparr>) 5000 =
     ((400, DeliverMessage ''Missing required fields''), ex_state)"
    by (simp add: deliver_def LostItem_findById_def findById_def ex_state_def ex_item_def ex_request_def)
  have b: "fst (fst ?r) = 200" "LostItem_coll (snd ?r) = []" "length (DeliveredItem_coll (snd ?r)) = 1"
    by (simp_all add: deliver_def Let_def LostItem_findById_def populateLostItem_def populate_def
        castToObjectId_def findById_def DeliveredItemSchema_validate_def usedObjectId_def
        identity_def ex_state_def ex_item_def ex_request_def ex_admin_def ex_finder_def ex_other_def)
  have e: "?r = ((200, snd (fst ?r)), snd ?r)" using b(1) by (metis prod.collapse)
  show ?thesis
    using d a b deliver_migrates [OF d e] by simp
qed

subsection \<open>Reverting a delivery\<close>

lemma revert_result:
  assumes "revert st ru i = ((200, Reverted l), st')"
  shows "\<exists>d. findById di_id (DeliveredItem_coll st) i = Some d \<and> ru_role ru = ''admin'' \<and>
           li_itemName l = di_itemName d \<and> li_description l = di_description d \<and>
           li_location l = di_location d \<and> li_category l = di_category d \<and>
           li_flightNumber l = di_flightNumber d \<and> li_images l = di_images d \<and>
           li_foundBy l = di_foundBy d \<and> li_status l = ''onHand'' \<and>
           li_dateFound l = di_dateDelivered d \<and>
           LostItem_coll st' = LostItem_coll st @ [l] \<and>
           DeliveredItem_coll st' = deleteOne di_id i (DeliveredItem_coll st)"
  using assms
  by (auto simp: revert_def Let_def checkRole_def usedObjectId_def LostItemSchema_status_default_def
      DeliveredItem_findById_def populateDeliveredItem_def populate_def castToObjectId_def
      dest: findById_Some split: if_splits option.splits user_ref.splits Option.bind_splits)

text \<open>
  Claim C3 on the delivered bag, found at 1000 and delivered at 5000: the administrator's
  revert answers 200, deletes the DeliveredItem and creates a LostItem with the owner
  and status \<open>onHand\<close>, but its \<open>dateFound\<close> is 5000, the date of delivery, and not the
  found-date 1000 of the delivery record.
\<close>

theorem revert_sets_dateFound_to_dateDelivered:
  "\<exists>l st'. revert ex_state_delivered (identity ex_admin) 20 = ((200, Reverted l), st') \<and>
      LostItem_coll st' = [l] \<and> DeliveredItem_coll st' = [] \<and>
      li_status l = ''onHand'' \<and> li_foundBy l = di_foundBy ex_delivered \<and>
      di_dateFound ex_delivered = 1000 \<and> di_dateDelivered ex_delivered = 5000 \<and>
      li_dateFound l = 5000"
  by (simp add: revert_def Let_def checkRole_def DeliveredItem_findById_def populateDeliveredItem_def
      populate_def castToObjectId_def findById_def LostItemSchema_validate_def
      LostItemSchema_status_enum_def LostItemSchema_status_default_def usedObjectId_def
      identity_def ex_state_delivered_def ex_delivered_def ex_admin_def ex_finder_def ex_other_def)

subsection \<open>Writes by an employee who is not the owner\<close>

text \<open>
  The first lost-items router lets no caller write who is neither administrator nor
  supervisor, whatever the body: the populated finder never renders as the caller's
  identifier, so the answer is 403, or 500 when the finder is no longer stored, and
  nothing is changed.
\<close>

lemma first_router_refuses_employees:
  assumes "findById li_id (LostItem_coll st) i = Some item"
      and "ru_role ru \<noteq> ''admin''" and "ru_role ru \<noteq> ''supervisor''"
  shows "updateItem uploadFile deleteFile st ru i b files =
           (if findById user_id (User_coll st) (li_foundBy item) = None
            then ((500, ItemMessage ''Error updating item''), st)
            else ((403, ItemMessage ''Not authorized to update this item''), st))"
    and "deleteItem st ru i =
           (if findById user_id (User_coll st) (li_foundBy item) = None
            then ((500, ItemMessage ''Error deleting item''), st)
            else ((403, ItemMessage ''Not authorized to delete this item''), st))"
  using assms
  by (auto simp: updateItem_def deleteItem_def LostItem_findById_def populateLostItem_def populate_def
      notAuthorized_def toString_ref_def split: option.splits)

text \<open>
  Claim C4 on the second lost-items router: an employee who did not find the bag updates
  it, taking over its ownership, and is answered 200; the same caller's deletion is
  answered 200 and removes the item. Neither request is refused with 403.
\<close>

theorem second_router_lets_non_owner_write:
  "ru_role (identity ex_other) = ''employee'' \<and>
   li_foundBy ex_item \<noteq> ru_id (identity ex_other) \<and>
   findById li_id (LostItem_coll ex_state) 10 = Some ex_item \<and>
   updateItem2 ex_state (identity ex_other) 10 ex_body =
     ((200, Item (ex_item\<lparr>li_description := ''Mine'', li_foundBy := 3\<rparr>)),
      ex_state\<lparr>LostItem_coll := [ex_item\<lparr>li_description := ''Mine'', li_foundBy := 3\<rparr>]\<rparr>) \<and>
   deleteItem2 ex_state (identity ex_other) 10 =
     ((200, ItemMessage ''Item deleted successfully''), ex_state\<lparr>LostItem_coll := []\<rparr>)"
  by (simp add: updateItem2_def Let_def deleteItem2_def otherUpdates_def orElse_def findById_def identity_def
      ex_state_def ex_item_def ex_other_def ex_body_def)

subsection \<open>Listing items\<close>






text \<open>
  The list routes that do not clean their result answer with nothing in the place of a
  reference that resolves to no user.
\<close>

lemma plain_list_reads_leave_null:
  "listLostItems ex_state [ex_item\<lparr>li_foundBy := 99\<rparr>] =
     (200, [\<lparr>ll_item = ex_item\<lparr>li_foundBy := 99\<rparr>, ll_foundBy = Null,
             ll_supervisor = populate (User_coll ex_state) (Some 1), ll_deliveredBy = Null\<rparr>])"
  "listDeliveredItems ex_state [ex_delivered\<lparr>di_foundBy := 99\<rparr>] =
     (200, [\<lparr>ld_item = ex_delivered\<lparr>di_foundBy := 99\<rparr>, ld_foundBy = Null,
             ld_deliveredBy = populate (User_coll ex_state) (Some 1)\<rparr>])"
  by (simp_all add: listLostItems_def listDeliveredItems_def populateLostItem_def
      populateDeliveredItem_def populate_def findById_def ex_state_def ex_item_def ex_delivered_def
      ex_admin_def ex_finder_def ex_other_def)



end
